theory Spec2Isabelle
  imports Main
begin

section \<open>Python strings\<close>

text \<open>
  A Python \<open>str\<close> is modelled as a \<open>string\<close>, one \<open>char\<close> per Python character, so
  that \<open>length\<close> is Python's \<open>len\<close>. \<open>str.lower()\<close> is modelled on the letters A to Z and
  leaves every other character as it is: the keywords the scorer looks for are made of
  lower-case ASCII letters and \<open>-\<close>.
\<close>

definition lower_char :: "char \<Rightarrow> char" where
  "lower_char c =
     (case map_of (zip ''ABCDEFGHIJKLMNOPQRSTUVWXYZ'' ''abcdefghijklmnopqrstuvwxyz'') c of
        Some d \<Rightarrow> d
      | None \<Rightarrow> c)"

definition lower :: "string \<Rightarrow> string" where
  "lower s = map lower_char s"

text \<open>\<open>s.startswith(p)\<close>.\<close>

fun startswith :: "string \<Rightarrow> string \<Rightarrow> bool" where
  "startswith s [] = True"
| "startswith [] (p # ps) = False"
| "startswith (c # cs) (p # ps) = (c = p \<and> startswith cs ps)"

text \<open>\<open>needle in hay\<close> on strings: \<open>needle\<close> occurs in \<open>hay\<close> as a contiguous run.\<close>

fun py_in :: "string \<Rightarrow> string \<Rightarrow> bool" where
  "py_in needle [] = (needle = [])"
| "py_in needle (c # cs) = (startswith (c # cs) needle \<or> py_in needle cs)"

section \<open>Data model\<close>

text \<open>\<open>class BusinessIdea(BaseModel)\<close>: seven required \<open>str\<close> fields.\<close>

record BusinessIdea =
  businessName :: string
  description :: string
  targetMarket :: string
  revenueModel :: string
  costStructure :: string
  distributionChannels :: string
  industry :: string

text \<open>The dictionary returned by \<open>analyze_business_idea\<close>, with its nested \<open>swot_analysis\<close>.\<close>

record swot =
  strengths :: "string list"
  weaknesses :: "string list"
  opportunities :: "string list"
  threats :: "string list"

record AnalysisResult =
  swot_analysis :: swot
  viability_score :: int
  risk_factors :: "string list"
  summary :: "string list"

text \<open>The exceptions of the Python code, as values.\<close>

datatype py_error =
    IndexError | KeyError | TypeError | AttributeError | ValueError
  | JSONDecodeError
  | Timeout | ConnectionError | HTTPError
  | FutureTimeoutError

section \<open>The fallback scorer\<close>

text \<open>The local variables of \<open>analyze_business_idea\<close> (lines 89 to 94).\<close>

record vars =
  score :: int
  v_strengths :: "string list"
  v_weaknesses :: "string list"
  v_opportunities :: "string list"
  v_threats :: "string list"
  v_risk_factors :: "string list"

definition init_vars :: vars where
  "init_vars = \<lparr>score = 0, v_strengths = [], v_weaknesses = [], v_opportunities = [],
     v_threats = [], v_risk_factors = []\<rparr>"

text \<open>Lines 96 to 101: description length.\<close>

definition analyze_description :: "BusinessIdea \<Rightarrow> vars \<Rightarrow> vars" where
  "analyze_description idea v =
     (if length (description idea) > 100 then
        v\<lparr>score := score v + 20,
          v_strengths := v_strengths v @ [''Detailed business description'']\<rparr>
      else
        v\<lparr>v_weaknesses := v_weaknesses v @ [''Business description could be more detailed'']\<rparr>)"

text \<open>Lines 103 to 110: target market.\<close>

definition analyze_market :: "BusinessIdea \<Rightarrow> vars \<Rightarrow> vars" where
  "analyze_market idea v =
     (if py_in ''global'' (lower (targetMarket idea)) then
        v\<lparr>score := score v + 15,
          v_opportunities := v_opportunities v @ [''Global market potential''],
          v_risk_factors := v_risk_factors v @ [''International market challenges'']\<rparr>
      else if py_in ''local'' (lower (targetMarket idea)) then
        v\<lparr>score := score v + 10,
          v_strengths := v_strengths v @ [''Focused local market approach'']\<rparr>
      else v)"

text \<open>Lines 112 to 118: revenue model.\<close>

definition analyze_revenue :: "BusinessIdea \<Rightarrow> vars \<Rightarrow> vars" where
  "analyze_revenue idea v =
     (if py_in ''subscription'' (lower (revenueModel idea)) then
        v\<lparr>score := score v + 20,
          v_strengths := v_strengths v @ [''Recurring revenue model'']\<rparr>
      else if py_in ''one-time'' (lower (revenueModel idea)) then
        v\<lparr>score := score v + 10,
          v_weaknesses := v_weaknesses v @ [''One-time revenue may limit growth'']\<rparr>
      else v)"

text \<open>Lines 120 to 126: cost structure.\<close>

definition analyze_cost :: "BusinessIdea \<Rightarrow> vars \<Rightarrow> vars" where
  "analyze_cost idea v =
     (if py_in ''low'' (lower (costStructure idea)) then
        v\<lparr>score := score v + 15,
          v_strengths := v_strengths v @ [''Low cost structure'']\<rparr>
      else if py_in ''high'' (lower (costStructure idea)) then
        v\<lparr>score := score v + 5,
          v_risk_factors := v_risk_factors v @ [''High operational costs'']\<rparr>
      else v)"

text \<open>Lines 128 to 135: distribution channels.\<close>

definition analyze_distribution :: "BusinessIdea \<Rightarrow> vars \<Rightarrow> vars" where
  "analyze_distribution idea v =
     (if py_in ''online'' (lower (distributionChannels idea)) then
        v\<lparr>score := score v + 15,
          v_strengths := v_strengths v @ [''Online distribution capability''],
          v_opportunities := v_opportunities v @ [''Digital market reach'']\<rparr>
      else if py_in ''physical'' (lower (distributionChannels idea)) then
        v\<lparr>score := score v + 10,
          v_risk_factors := v_risk_factors v @ [''Physical distribution costs'']\<rparr>
      else v)"

text \<open>Lines 137 to 147: the industry, compared exactly.\<close>

definition analyze_industry :: "BusinessIdea \<Rightarrow> vars \<Rightarrow> vars" where
  "analyze_industry idea v =
     (if industry idea = ''SaaS'' then
        v\<lparr>score := score v + 15,
          v_opportunities := v_opportunities v @ [''Growing SaaS market''],
          v_strengths := v_strengths v @ [''Scalable business model'']\<rparr>
      else if industry idea = ''E-commerce'' then
        v\<lparr>score := score v + 10,
          v_threats := v_threats v @ [''High competition in e-commerce'']\<rparr>
      else if industry idea = ''Services'' then
        v\<lparr>score := score v + 12,
          v_strengths := v_strengths v @ [''Service-based business stability'']\<rparr>
      else v)"

text \<open>The rules in the order the code runs them (lines 96 to 147).\<close>

definition run_rules :: "BusinessIdea \<Rightarrow> vars" where
  "run_rules idea =
     analyze_industry idea
       (analyze_distribution idea
         (analyze_cost idea
           (analyze_revenue idea
             (analyze_market idea
               (analyze_description idea init_vars)))))"

text \<open>Line 150: \<open>min(max(score, 0), 100)\<close>.\<close>

definition clamp_score :: "int \<Rightarrow> int" where
  "clamp_score s = min (max s 0) 100"

text \<open>\<open>xs[0]\<close>: raises \<open>IndexError\<close> on the empty list.\<close>

definition index0 :: "'a list \<Rightarrow> py_error + 'a" where
  "index0 xs = (case xs of [] \<Rightarrow> Inl IndexError | x # _ \<Rightarrow> Inr x)"

text \<open>\<open>xs[0] if xs else placeholder\<close> (lines 155 and 156).\<close>

definition first_or :: "string list \<Rightarrow> string \<Rightarrow> py_error + string" where
  "first_or xs placeholder = (if xs \<noteq> [] then index0 xs else Inr placeholder)"

text \<open>The tier of line 154.\<close>

definition tier :: "int \<Rightarrow> string" where
  "tier s = (if s > 70 then ''strong'' else if s > 40 then ''moderate'' else ''weak'')"

text \<open>Lines 152 to 157: the three summary strings.\<close>

definition make_summary :: "BusinessIdea \<Rightarrow> int \<Rightarrow> vars \<Rightarrow> py_error + string list" where
  "make_summary idea s v =
     (case first_or (v_strengths v) ''Need to identify core strengths'' of
        Inl e \<Rightarrow> Inl e
      | Inr key_strength \<Rightarrow>
          (case first_or (v_threats v) ''Need to assess market risks'' of
             Inl e \<Rightarrow> Inl e
           | Inr main_challenge \<Rightarrow>
               Inr [businessName idea @ '' shows '' @ tier s @ '' market potential'',
                    ''Key strength: '' @ key_strength,
                    ''Main challenge: '' @ main_challenge]))"

text \<open>
  \<open>analyze_business_idea\<close> (lines 86 to 169). \<open>Inl\<close> is an exception leaving the function,
  \<open>Inr\<close> the returned dictionary.
\<close>

definition analyze_business_idea :: "BusinessIdea \<Rightarrow> py_error + AnalysisResult" where
  "analyze_business_idea idea =
     (let v = run_rules idea;
          s = clamp_score (score v)
      in case make_summary idea s v of
           Inl e \<Rightarrow> Inl e
         | Inr summ \<Rightarrow>
             Inr \<lparr>swot_analysis =
                    \<lparr>strengths = take 3 (v_strengths v),
                     weaknesses = take 3 (v_weaknesses v),
                     opportunities = take 3 (v_opportunities v),
                     threats = take 3 (v_threats v)\<rparr>,
                  viability_score = s,
                  risk_factors = take 3 (v_risk_factors v),
                  summary = summ\<rparr>)"

section \<open>The rule table of the specification\<close>

text \<open>
  The specification describes the scorer as a table of rules, each with a condition, a
  score delta and points for the buckets, grouped into chains of which the first matching
  row wins. The table below follows that description; the texts are those of the code.
\<close>

datatype bucket = Strength | Weakness | Opportunity | Threat | Risk

record rule =
  trigger :: "BusinessIdea \<Rightarrow> bool"
  delta :: int
  effects :: "(bucket \<times> string) list"

definition description_rules :: "rule list" where
  "description_rules =
     [\<lparr>trigger = (\<lambda>i. length (description i) > 100), delta = 20,
        effects = [(Strength, ''Detailed business description'')]\<rparr>,
      \<lparr>trigger = (\<lambda>i. length (description i) \<le> 100), delta = 0,
        effects = [(Weakness, ''Business description could be more detailed'')]\<rparr>]"

definition market_rules :: "rule list" where
  "market_rules =
     [\<lparr>trigger = (\<lambda>i. py_in ''global'' (lower (targetMarket i))), delta = 15,
        effects = [(Opportunity, ''Global market potential''),
                   (Risk, ''International market challenges'')]\<rparr>,
      \<lparr>trigger = (\<lambda>i. py_in ''local'' (lower (targetMarket i))), delta = 10,
        effects = [(Strength, ''Focused local market approach'')]\<rparr>]"

definition revenue_rules :: "rule list" where
  "revenue_rules =
     [\<lparr>trigger = (\<lambda>i. py_in ''subscription'' (lower (revenueModel i))), delta = 20,
        effects = [(Strength, ''Recurring revenue model'')]\<rparr>,
      \<lparr>trigger = (\<lambda>i. py_in ''one-time'' (lower (revenueModel i))), delta = 10,
        effects = [(Weakness, ''One-time revenue may limit growth'')]\<rparr>]"

definition cost_rules :: "rule list" where
  "cost_rules =
     [\<lparr>trigger = (\<lambda>i. py_in ''low'' (lower (costStructure i))), delta = 15,
        effects = [(Strength, ''Low cost structure'')]\<rparr>,
      \<lparr>trigger = (\<lambda>i. py_in ''high'' (lower (costStructure i))), delta = 5,
        effects = [(Risk, ''High operational costs'')]\<rparr>]"

definition distribution_rules :: "rule list" where
  "distribution_rules =
     [\<lparr>trigger = (\<lambda>i. py_in ''online'' (lower (distributionChannels i))), delta = 15,
        effects = [(Strength, ''Online distribution capability''),
                   (Opportunity, ''Digital market reach'')]\<rparr>,
      \<lparr>trigger = (\<lambda>i. py_in ''physical'' (lower (distributionChannels i))), delta = 10,
        effects = [(Risk, ''Physical distribution costs'')]\<rparr>]"

definition industry_rules :: "rule list" where
  "industry_rules =
     [\<lparr>trigger = (\<lambda>i. industry i = ''SaaS''), delta = 15,
        effects = [(Opportunity, ''Growing SaaS market''),
                   (Strength, ''Scalable business model'')]\<rparr>,
      \<lparr>trigger = (\<lambda>i. industry i = ''E-commerce''), delta = 10,
        effects = [(Threat, ''High competition in e-commerce'')]\<rparr>,
      \<lparr>trigger = (\<lambda>i. industry i = ''Services''), delta = 12,
        effects = [(Strength, ''Service-based business stability'')]\<rparr>]"

definition rule_table :: "rule list list" where
  "rule_table = [description_rules, market_rules, revenue_rules, cost_rules,
     distribution_rules, industry_rules]"

text \<open>The first row of a chain whose condition holds, if any.\<close>

definition first_match :: "BusinessIdea \<Rightarrow> rule list \<Rightarrow> rule list" where
  "first_match idea g = take 1 (filter (\<lambda>r. trigger r idea) g)"

text \<open>The triggered rules of an input, in rule order.\<close>

definition triggered :: "BusinessIdea \<Rightarrow> rule list" where
  "triggered idea = concat (map (first_match idea) rule_table)"

definition triggered_deltas :: "BusinessIdea \<Rightarrow> int list" where
  "triggered_deltas idea = map delta (triggered idea)"

text \<open>The points that a list of rules gives to one bucket, in rule order.\<close>

definition points :: "bucket \<Rightarrow> rule list \<Rightarrow> string list" where
  "points b rs = map snd (filter (\<lambda>e. fst e = b) (concat (map effects rs)))"

definition candidates :: "bucket \<Rightarrow> BusinessIdea \<Rightarrow> string list" where
  "candidates b idea = points b (triggered idea)"

text \<open>What applying a rule does to the local variables.\<close>

definition bucket_of :: "bucket \<Rightarrow> vars \<Rightarrow> string list" where
  "bucket_of b v =
     (case b of Strength \<Rightarrow> v_strengths v | Weakness \<Rightarrow> v_weaknesses v
      | Opportunity \<Rightarrow> v_opportunities v | Threat \<Rightarrow> v_threats v | Risk \<Rightarrow> v_risk_factors v)"

definition add_point :: "bucket \<times> string \<Rightarrow> vars \<Rightarrow> vars" where
  "add_point e v =
     (case fst e of
        Strength \<Rightarrow> v\<lparr>v_strengths := v_strengths v @ [snd e]\<rparr>
      | Weakness \<Rightarrow> v\<lparr>v_weaknesses := v_weaknesses v @ [snd e]\<rparr>
      | Opportunity \<Rightarrow> v\<lparr>v_opportunities := v_opportunities v @ [snd e]\<rparr>
      | Threat \<Rightarrow> v\<lparr>v_threats := v_threats v @ [snd e]\<rparr>
      | Risk \<Rightarrow> v\<lparr>v_risk_factors := v_risk_factors v @ [snd e]\<rparr>)"

definition apply_rule :: "rule \<Rightarrow> vars \<Rightarrow> vars" where
  "apply_rule r v = fold add_point (effects r) (v\<lparr>score := score v + delta r\<rparr>)"

definition apply_rules :: "rule list \<Rightarrow> vars \<Rightarrow> vars" where
  "apply_rules rs v = fold apply_rule rs v"

section \<open>Inputs of the scenarios\<close>

definition acme :: BusinessIdea where
  "acme = \<lparr>businessName = ''Acme'', description = replicate 150 CHR ''A'',
     targetMarket = ''global reach'', revenueModel = ''subscription based'',
     costStructure = ''low overhead'', distributionChannels = ''online only'',
     industry = ''SaaS''\<rparr>"

definition empty_idea :: BusinessIdea where
  "empty_idea = \<lparr>businessName = '''', description = '''', targetMarket = '''',
     revenueModel = '''', costStructure = '''', distributionChannels = '''',
     industry = ''''\<rparr>"

definition mixed_idea :: BusinessIdea where
  "mixed_idea = \<lparr>businessName = ''Mix'', description = ''short'',
     targetMarket = ''Local shops, then GLOBAL'',
     revenueModel = ''one-time fee or Subscription'',
     costStructure = ''high rent, low wages'',
     distributionChannels = ''physical stores and online'',
     industry = ''e-commerce''\<rparr>"

section \<open>The schema of the result\<close>

text \<open>
  The data model of the specification: each SWOT list and \<open>risk_factors\<close> hold at most
  three entries, the score lies between 0 and 100, and the summary is three strings.
\<close>

definition schema_valid :: "AnalysisResult \<Rightarrow> bool" where
  "schema_valid r \<longleftrightarrow>
     length (strengths (swot_analysis r)) \<le> 3
     \<and> length (weaknesses (swot_analysis r)) \<le> 3
     \<and> length (opportunities (swot_analysis r)) \<le> 3
     \<and> length (threats (swot_analysis r)) \<le> 3
     \<and> 0 \<le> viability_score r \<and> viability_score r \<le> 100
     \<and> length (risk_factors r) \<le> 3
     \<and> length (summary r) = 3"

section \<open>JSON values and the returned dictionary\<close>

text \<open>
  What \<open>json.loads\<close> produces. An object is a list of key and value pairs with distinct
  keys; a float is kept as mantissa and exponent and never computed with.
\<close>

datatype json =
    JNull | JBool bool | JInt int | JFloat int int | JString string
  | JArray "json list" | JObject "(string \<times> json) list"

text \<open>The dictionary literal of lines 159 to 169, as the JSON value it is.\<close>

definition as_dict :: "AnalysisResult \<Rightarrow> json" where
  "as_dict r =
     JObject
       [(''swot_analysis'',
           JObject
             [(''strengths'', JArray (map JString (strengths (swot_analysis r)))),
              (''weaknesses'', JArray (map JString (weaknesses (swot_analysis r)))),
              (''opportunities'', JArray (map JString (opportunities (swot_analysis r)))),
              (''threats'', JArray (map JString (threats (swot_analysis r))))]),
        (''viability_score'', JInt (viability_score r)),
        (''risk_factors'', JArray (map JString (risk_factors r))),
        (''summary'', JArray (map JString (summary r)))]"

text \<open>\<open>analyze_business_idea(idea)\<close> as a caller receives it: the dictionary, or the exception.\<close>

definition fallback :: "BusinessIdea \<Rightarrow> py_error + json" where
  "fallback idea = map_sum id as_dict (analyze_business_idea idea)"

section \<open>The enrichment attempt\<close>

text \<open>
  The world outside the process. \<open>post\<close> is what \<open>requests.post\<close> does with the prompt: it
  raises, or returns a response with a status code and a body. \<open>loads\<close> is the JSON parser
  (\<open>json.loads\<close>, and the one behind \<open>response.json()\<close>), \<open>None\<close> when it raises.
  \<open>duration\<close> is the time, in the units of the two timeouts, that \<open>get_ai_analysis\<close> takes
  to return.
\<close>

record response =
  status_code :: nat
  body :: string

datatype post_outcome = Raised py_error | Returned response

record env =
  post :: "string \<Rightarrow> post_outcome"
  loads :: "string \<Rightarrow> json option"
  duration :: nat

text \<open>Lines 39 to 60: the prompt.\<close>

definition quoted :: "string \<Rightarrow> string" where
  "quoted s = [CHR 0x22] @ s @ [CHR 0x22]"

definition format_block :: string where
  "format_block =
     ''{\<newline>''
     @ ''    '' @ quoted ''swot_analysis'' @ '': {\<newline>''
     @ ''        '' @ quoted ''strengths'' @ '': ['' @ quoted ''point1'' @ '', ''
         @ quoted ''point2'' @ '', '' @ quoted ''point3'' @ ''],\<newline>''
     @ ''        '' @ quoted ''weaknesses'' @ '': ['' @ quoted ''point1'' @ '', ''
         @ quoted ''point2'' @ '', '' @ quoted ''point3'' @ ''],\<newline>''
     @ ''        '' @ quoted ''opportunities'' @ '': ['' @ quoted ''point1'' @ '', ''
         @ quoted ''point2'' @ '', '' @ quoted ''point3'' @ ''],\<newline>''
     @ ''        '' @ quoted ''threats'' @ '': ['' @ quoted ''point1'' @ '', ''
         @ quoted ''point2'' @ '', '' @ quoted ''point3'' @ '']\<newline>''
     @ ''    },\<newline>''
     @ ''    '' @ quoted ''viability_score'' @ '': number_between_0_and_100,\<newline>''
     @ ''    '' @ quoted ''risk_factors'' @ '': ['' @ quoted ''risk1'' @ '', ''
         @ quoted ''risk2'' @ '', '' @ quoted ''risk3'' @ ''],\<newline>''
     @ ''    '' @ quoted ''summary'' @ '': ['' @ quoted ''point1'' @ '', ''
         @ quoted ''point2'' @ '', '' @ quoted ''point3'' @ '']\<newline>''
     @ ''}''"

definition prompt :: "BusinessIdea \<Rightarrow> string" where
  "prompt idea =
     ''Analyze this business idea and provide a detailed analysis in JSON format:\<newline>\<newline>''
     @ ''Business Name: '' @ businessName idea @ ''\<newline>''
     @ ''Description: '' @ description idea @ ''\<newline>''
     @ ''Target Market: '' @ targetMarket idea @ ''\<newline>''
     @ ''Revenue Model: '' @ revenueModel idea @ ''\<newline>''
     @ ''Cost Structure: '' @ costStructure idea @ ''\<newline>''
     @ ''Distribution Channels: '' @ distributionChannels idea @ ''\<newline>''
     @ ''Industry: '' @ industry idea @ ''\<newline>\<newline>''
     @ ''Provide analysis in this exact JSON format:\<newline>''
     @ format_block"

text \<open>
  \<open>response.raise_for_status()\<close>: \<open>requests\<close> raises \<open>HTTPError\<close> for the client and server
  error statuses, 400 to 599.
\<close>

definition raise_for_status :: "response \<Rightarrow> py_error + unit" where
  "raise_for_status r =
     (if 400 \<le> status_code r \<and> status_code r < 600 then Inl HTTPError else Inr ())"

text \<open>\<open>v[0]\<close> on a parsed value.\<close>

definition subscript0 :: "json \<Rightarrow> py_error + json" where
  "subscript0 v =
     (case v of
        JArray xs \<Rightarrow> index0 xs
      | JObject kvs \<Rightarrow> Inl KeyError
      | JString s \<Rightarrow> (case s of [] \<Rightarrow> Inl IndexError | c # _ \<Rightarrow> Inr (JString [c]))
      | _ \<Rightarrow> Inl TypeError)"

text \<open>\<open>v[key]\<close> for a string key.\<close>

definition subscript_key :: "json \<Rightarrow> string \<Rightarrow> py_error + json" where
  "subscript_key v key =
     (case v of
        JObject kvs \<Rightarrow> (case map_of kvs key of None \<Rightarrow> Inl KeyError | Some x \<Rightarrow> Inr x)
      | _ \<Rightarrow> Inl TypeError)"

text \<open>\<open>s.find(c)\<close> and \<open>s.rfind(c)\<close> for one character: the first and the last index, or -1.\<close>

fun py_find :: "char \<Rightarrow> string \<Rightarrow> int" where
  "py_find c [] = -1"
| "py_find c (x # xs) =
     (if x = c then 0 else (let r = py_find c xs in if r < 0 then -1 else r + 1))"

fun py_rfind :: "char \<Rightarrow> string \<Rightarrow> int" where
  "py_rfind c [] = -1"
| "py_rfind c (x # xs) =
     (let r = py_rfind c xs in if 0 \<le> r then r + 1 else if x = c then 0 else -1)"

text \<open>\<open>s[a:b]\<close> for \<open>0 \<le> a\<close> and \<open>0 \<le> b\<close>, the only way line 74 uses it.\<close>

definition slice :: "string \<Rightarrow> int \<Rightarrow> int \<Rightarrow> string" where
  "slice s a b = drop (nat a) (take (nat b) s)"

text \<open>Lines 64 to 69: the call, the status check, the body and the generated text.\<close>

definition fetch_generated_text :: "env \<Rightarrow> BusinessIdea \<Rightarrow> py_error + json" where
  "fetch_generated_text e idea =
     (case post e (prompt idea) of
        Raised x \<Rightarrow> Inl x
      | Returned resp \<Rightarrow>
          (case raise_for_status resp of
             Inl x \<Rightarrow> Inl x
           | Inr _ \<Rightarrow>
               (case loads e (body resp) of
                  None \<Rightarrow> Inl JSONDecodeError
                | Some result \<Rightarrow>
                    (case subscript0 result of
                       Inl x \<Rightarrow> Inl x
                     | Inr first \<Rightarrow> subscript_key first ''generated_text''))))"

text \<open>
  Lines 70 to 77: the braces and the parse. A value that is not a string has no \<open>find\<close>.
\<close>

definition extract_json :: "env \<Rightarrow> json \<Rightarrow> py_error + json" where
  "extract_json e analysis_text =
     (case analysis_text of
        JString txt \<Rightarrow>
          (let json_start = py_find CHR ''{'' txt;
               json_end = py_rfind CHR ''}'' txt + 1
           in if json_start \<ge> 0 \<and> json_end > json_start then
                (case loads e (slice txt json_start json_end) of
                   None \<Rightarrow> Inl JSONDecodeError
                 | Some analysis_json \<Rightarrow> Inr analysis_json)
              else Inl ValueError)
      | _ \<Rightarrow> Inl AttributeError)"

text \<open>The body of the \<open>try\<close> (lines 62 to 77).\<close>

definition ai_attempt :: "env \<Rightarrow> BusinessIdea \<Rightarrow> py_error + json" where
  "ai_attempt e idea =
     (case fetch_generated_text e idea of
        Inl x \<Rightarrow> Inl x
      | Inr analysis_text \<Rightarrow> extract_json e analysis_text)"

text \<open>
  The exceptions the first handler takes, \<open>requests.RequestException\<close> and its subclasses
  (line 79); the second handler takes every other \<open>Exception\<close> (line 82).
\<close>

definition is_request_exception :: "py_error \<Rightarrow> bool" where
  "is_request_exception x \<longleftrightarrow> x = Timeout \<or> x = ConnectionError \<or> x = HTTPError"

text \<open>\<open>get_ai_analysis\<close> (lines 34 to 84).\<close>

definition get_ai_analysis :: "env \<Rightarrow> BusinessIdea \<Rightarrow> py_error + json" where
  "get_ai_analysis e idea =
     (case ai_attempt e idea of
        Inr analysis_json \<Rightarrow> Inr analysis_json
      | Inl x \<Rightarrow> (if is_request_exception x then fallback idea else fallback idea))"

section \<open>The request handler\<close>

text \<open>
  The success body of \<open>evaluate_idea\<close>. \<open>data_analysis\<close> is the value that
  \<open>json.dumps\<close> writes out.
\<close>

record api_response =
  status :: string
  message :: string
  data_businessName :: string
  data_industry :: string
  data_analysis :: json

datatype http_exception = HTTPException nat py_error

text \<open>What the handler answers, and when, counted from the submission of the attempt.\<close>

record handled =
  elapsed :: nat
  reply :: "http_exception + api_response"

text \<open>
  Line 186, \<open>future.result(timeout=15)\<close>: the result of the attempt (or the exception it
  raised) when the attempt is done within 15 units, \<open>TimeoutError\<close> otherwise.
\<close>

definition future_result :: "env \<Rightarrow> BusinessIdea \<Rightarrow> py_error + json" where
  "future_result e idea =
     (if duration e \<le> 15 then get_ai_analysis e idea else Inl FutureTimeoutError)"

text \<open>
  \<open>evaluate_idea\<close> (lines 180 to 207). The wait of line 186 ends when the attempt ends or
  after 15 units. Control then leaves the \<open>with\<close> block of line 184, on the normal path
  and on the exception path alike, and \<open>ThreadPoolExecutor.__exit__\<close> runs
  \<open>shutdown(wait=True)\<close>, which returns once the worker thread has finished. The time
  the scorer itself takes is not counted.
\<close>

definition evaluate_idea :: "env \<Rightarrow> BusinessIdea \<Rightarrow> handled" where
  "evaluate_idea e idea =
     (let waited = min (duration e) 15;
          joined = max waited (duration e);
          analysis = (case future_result e idea of
                        Inr a \<Rightarrow> Inr a
                      | Inl x \<Rightarrow> fallback idea)
      in \<lparr>elapsed = joined,
          reply = (case analysis of
                     Inl x \<Rightarrow> Inl (HTTPException 500 x)
                   | Inr a \<Rightarrow>
                       Inr \<lparr>status = ''success'',
                            message = ''Business idea evaluated successfully'',
                            data_businessName = businessName idea,
                            data_industry = industry idea,
                            data_analysis = a\<rparr>)\<rparr>)"

section \<open>Words of the specification about the enrichment\<close>

text \<open>The text has an opening brace with a closing brace somewhere after it.\<close>

definition has_brace_pair :: "string \<Rightarrow> bool" where
  "has_brace_pair txt \<longleftrightarrow> CHR ''}'' \<in> set (dropWhile (\<lambda>c. c \<noteq> CHR ''{'') txt)"

text \<open>The text from its first opening brace to its last closing brace.\<close>

definition between_braces :: "string \<Rightarrow> string" where
  "between_braces txt =
     rev (dropWhile (\<lambda>c. c \<noteq> CHR ''}'') (rev (dropWhile (\<lambda>c. c \<noteq> CHR ''{'') txt)))"

section \<open>Environments of the scenarios\<close>

text \<open>The outbound call times out after the 10 units of line 64.\<close>

definition timeout_env :: env where
  "timeout_env = \<lparr>post = (\<lambda>p. Raised Timeout), loads = (\<lambda>s. None), duration = 10\<rparr>"

text \<open>The service answers 503.\<close>

definition unavailable_env :: env where
  "unavailable_env =
     \<lparr>post = (\<lambda>p. Returned \<lparr>status_code = 503, body = ''Service Unavailable''\<rparr>),
      loads = (\<lambda>s. None), duration = 1\<rparr>"

text \<open>The service answers 200 and the generated text holds no braces.\<close>

definition plain_body :: string where
  "plain_body = ''[{'' @ quoted ''generated_text'' @ '': '' @ quoted ''no json here'' @ ''}]''"

definition plain_env :: env where
  "plain_env =
     \<lparr>post = (\<lambda>p. Returned \<lparr>status_code = 200, body = plain_body\<rparr>),
      loads = (\<lambda>s. if s = plain_body
                    then Some (JArray [JObject [(''generated_text'', JString ''no json here'')]])
                    else None),
      duration = 2\<rparr>"

text \<open>
  The service answers 200 with a well-formed body, but the attempt takes 20 units (each
  wait on the socket stays under the 10 units of line 64).
\<close>

definition slow_body :: string where
  "slow_body = ''[{'' @ quoted ''generated_text'' @ '': '' @ quoted ''{}'' @ ''}]''"

definition slow_env :: env where
  "slow_env =
     \<lparr>post = (\<lambda>p. Returned \<lparr>status_code = 200, body = slow_body\<rparr>),
      loads = (\<lambda>s. if s = slow_body then Some (JArray [JObject [(''generated_text'', JString ''{}'')]])
                    else if s = ''{}'' then Some (JObject [])
                    else None),
      duration = 20\<rparr>"

text \<open>
  The service answers 300 without a \<open>Location\<close> header, which \<open>requests\<close> hands back as the
  final response, and the body is well formed.
\<close>

definition redirect_body :: string where
  "redirect_body = ''[{'' @ quoted ''generated_text'' @ '': '' @ quoted ''{}'' @ ''}]''"

definition redirect_env :: env where
  "redirect_env =
     \<lparr>post = (\<lambda>p. Returned \<lparr>status_code = 300, body = redirect_body\<rparr>),
      loads = (\<lambda>s. if s = redirect_body
                    then Some (JArray [JObject [(''generated_text'', JString ''{}'')]])
                    else if s = ''{}'' then Some (JObject [])
                    else None),
      duration = 2\<rparr>"

section \<open>Properties of string matching\<close>

lemma startswith_iff: "startswith s p \<longleftrightarrow> (\<exists>t. s = p @ t)"
  by (induction s p rule: startswith.induct) auto

lemma py_in_iff: "py_in needle hay \<longleftrightarrow> (\<exists>p t. hay = p @ needle @ t)"
proof (induction hay)
  case Nil
  then show ?case by auto
next
  case (Cons c cs)
  show ?case
  proof
    assume "py_in needle (c # cs)"
    then consider "startswith (c # cs) needle" | "py_in needle cs" by auto
    then show "\<exists>p t. c # cs = p @ needle @ t"
    proof cases
      case 1
      then obtain t where "c # cs = needle @ t" by (auto simp: startswith_iff)
      then have "c # cs = [] @ needle @ t" by simp
      then show ?thesis by blast
    next
      case 2
      then obtain p t where "cs = p @ needle @ t" using Cons.IH by blast
      then have "c # cs = (c # p) @ needle @ t" by simp
      then show ?thesis by blast
    qed
  next
    assume "\<exists>p t. c # cs = p @ needle @ t"
    then obtain p t where e: "c # cs = p @ needle @ t" by blast
    show "py_in needle (c # cs)"
    proof (cases p)
      case Nil
      then have "startswith (c # cs) needle" using e by (auto simp: startswith_iff)
      then show ?thesis by simp
    next
      case (Cons a p')
      then have "cs = p' @ needle @ t" using e by simp
      then have "py_in needle cs" using Cons.IH by blast
      then show ?thesis by simp
    qed
  qed
qed

lemma length_lower: "length (lower s) = length s"
  by (simp add: lower_def)

section \<open>The code's rules against the table\<close>

lemma score_add_point: "score (add_point e v) = score v"
  by (cases "fst e") (auto simp: add_point_def)

lemma bucket_add_point:
  "bucket_of b (add_point e v) = bucket_of b v @ (if fst e = b then [snd e] else [])"
  by (cases "fst e"; cases b) (auto simp: add_point_def bucket_of_def)

lemma score_fold_add_point: "score (fold add_point es v) = score v"
  by (induction es arbitrary: v) (auto simp: score_add_point)

lemma bucket_fold_add_point:
  "bucket_of b (fold add_point es v) = bucket_of b v @ map snd (filter (\<lambda>e. fst e = b) es)"
  by (induction es arbitrary: v) (auto simp: bucket_add_point)

lemma score_apply_rule: "score (apply_rule r v) = score v + delta r"
  by (simp add: apply_rule_def score_fold_add_point)

lemma bucket_score_update: "bucket_of b (v\<lparr>score := s\<rparr>) = bucket_of b v"
  by (cases b) (simp_all add: bucket_of_def)

lemma bucket_init_vars: "bucket_of b init_vars = []"
  by (cases b) (simp_all add: bucket_of_def init_vars_def)

lemma bucket_apply_rule: "bucket_of b (apply_rule r v) = bucket_of b v @ points b [r]"
  by (simp add: apply_rule_def bucket_fold_add_point points_def bucket_score_update)

lemma points_Cons: "points b (r # rs) = points b [r] @ points b rs"
  by (simp add: points_def)

lemma score_apply_rules: "score (apply_rules rs v) = score v + sum_list (map delta rs)"
  unfolding apply_rules_def
  by (induction rs arbitrary: v) (auto simp: score_apply_rule)

lemma bucket_apply_rules: "bucket_of b (apply_rules rs v) = bucket_of b v @ points b rs"
  unfolding apply_rules_def
proof (induction rs arbitrary: v)
  case Nil
  then show ?case by (simp add: points_def)
next
  case (Cons r rs)
  have "bucket_of b (fold apply_rule (r # rs) v) = bucket_of b (apply_rule r v) @ points b rs"
    using Cons.IH [of "apply_rule r v"] by simp
  then show ?case
    by (simp add: bucket_apply_rule points_Cons [of b r rs])
qed

lemma apply_rules_append: "apply_rules (rs @ rs') v = apply_rules rs' (apply_rules rs v)"
  by (simp add: apply_rules_def)

lemma analyze_description_table:
  "analyze_description idea v = apply_rules (first_match idea description_rules) v"
  by (simp add: analyze_description_def first_match_def description_rules_def apply_rules_def
      apply_rule_def add_point_def)

lemma analyze_market_table:
  "analyze_market idea v = apply_rules (first_match idea market_rules) v"
  by (simp add: analyze_market_def first_match_def market_rules_def apply_rules_def
      apply_rule_def add_point_def)

lemma analyze_revenue_table:
  "analyze_revenue idea v = apply_rules (first_match idea revenue_rules) v"
  by (simp add: analyze_revenue_def first_match_def revenue_rules_def apply_rules_def
      apply_rule_def add_point_def)

lemma analyze_cost_table:
  "analyze_cost idea v = apply_rules (first_match idea cost_rules) v"
  by (simp add: analyze_cost_def first_match_def cost_rules_def apply_rules_def
      apply_rule_def add_point_def)

lemma analyze_distribution_table:
  "analyze_distribution idea v = apply_rules (first_match idea distribution_rules) v"
  by (simp add: analyze_distribution_def first_match_def distribution_rules_def apply_rules_def
      apply_rule_def add_point_def)

lemma analyze_industry_table:
  "analyze_industry idea v = apply_rules (first_match idea industry_rules) v"
  by (simp add: analyze_industry_def first_match_def industry_rules_def apply_rules_def
      apply_rule_def add_point_def)

lemma run_rules_table: "run_rules idea = apply_rules (triggered idea) init_vars"
  by (simp add: run_rules_def triggered_def rule_table_def apply_rules_append
      analyze_description_table analyze_market_table analyze_revenue_table
      analyze_cost_table analyze_distribution_table analyze_industry_table)

lemma score_run_rules: "score (run_rules idea) = sum_list (triggered_deltas idea)"
  by (simp add: run_rules_table score_apply_rules triggered_deltas_def init_vars_def)

lemma bucket_run_rules: "bucket_of b (run_rules idea) = candidates b idea"
  by (simp add: run_rules_table bucket_apply_rules candidates_def bucket_init_vars)

section \<open>The scorer never raises\<close>

lemma first_or_Inr: "first_or xs p = Inr (case xs of [] \<Rightarrow> p | x # _ \<Rightarrow> x)"
  by (cases xs) (simp_all add: first_or_def index0_def)

lemma make_summary_Inr:
  "make_summary idea s v =
     Inr [businessName idea @ '' shows '' @ tier s @ '' market potential'',
          ''Key strength: '' @
            (case v_strengths v of [] \<Rightarrow> ''Need to identify core strengths'' | x # _ \<Rightarrow> x),
          ''Main challenge: '' @
            (case v_threats v of [] \<Rightarrow> ''Need to assess market risks'' | x # _ \<Rightarrow> x)]"
  by (simp add: make_summary_def first_or_Inr)

lemma analyze_Inr:
  "analyze_business_idea idea =
     Inr \<lparr>swot_analysis =
            \<lparr>strengths = take 3 (v_strengths (run_rules idea)),
             weaknesses = take 3 (v_weaknesses (run_rules idea)),
             opportunities = take 3 (v_opportunities (run_rules idea)),
             threats = take 3 (v_threats (run_rules idea))\<rparr>,
          viability_score = clamp_score (score (run_rules idea)),
          risk_factors = take 3 (v_risk_factors (run_rules idea)),
          summary =
            [businessName idea @ '' shows '' @ tier (clamp_score (score (run_rules idea)))
               @ '' market potential'',
             ''Key strength: '' @
               (case v_strengths (run_rules idea) of
                  [] \<Rightarrow> ''Need to identify core strengths'' | x # _ \<Rightarrow> x),
             ''Main challenge: '' @
               (case v_threats (run_rules idea) of
                  [] \<Rightarrow> ''Need to assess market risks'' | x # _ \<Rightarrow> x)]\<rparr>"
  by (simp add: analyze_business_idea_def make_summary_Inr Let_def)

section \<open>The accumulated lists are the candidates of the table\<close>

lemma v_strengths_run_rules: "v_strengths (run_rules idea) = candidates Strength idea"
  using bucket_run_rules [of Strength idea] by (simp add: bucket_of_def)

lemma v_weaknesses_run_rules: "v_weaknesses (run_rules idea) = candidates Weakness idea"
  using bucket_run_rules [of Weakness idea] by (simp add: bucket_of_def)

lemma v_opportunities_run_rules: "v_opportunities (run_rules idea) = candidates Opportunity idea"
  using bucket_run_rules [of Opportunity idea] by (simp add: bucket_of_def)

lemma v_threats_run_rules: "v_threats (run_rules idea) = candidates Threat idea"
  using bucket_run_rules [of Threat idea] by (simp add: bucket_of_def)

lemma v_risk_factors_run_rules: "v_risk_factors (run_rules idea) = candidates Risk idea"
  using bucket_run_rules [of Risk idea] by (simp add: bucket_of_def)

lemma points_append: "points b (rs @ rs') = points b rs @ points b rs'"
  by (simp add: points_def)

lemma candidates_groups:
  "candidates b idea =
     points b (first_match idea description_rules) @ points b (first_match idea market_rules)
     @ points b (first_match idea revenue_rules) @ points b (first_match idea cost_rules)
     @ points b (first_match idea distribution_rules)
     @ points b (first_match idea industry_rules)"
  by (simp add: candidates_def triggered_def rule_table_def points_append)

lemma set_points: "set (points b rs) = {t. \<exists>r \<in> set rs. (b, t) \<in> set (effects r)}"
  by (force simp: points_def)

lemma set_first_match: "set (first_match idea g) \<subseteq> set g"
proof -
  have "set (take 1 (filter (\<lambda>r. trigger r idea) g)) \<subseteq> set (filter (\<lambda>r. trigger r idea) g)"
    by (rule set_take_subset)
  then show ?thesis by (auto simp: first_match_def)
qed

lemma points_first_match_subset: "set (points b (first_match idea g)) \<subseteq> set (points b g)"
  using set_first_match [of idea g] by (auto simp: set_points)

lemma points_first_match_Nil: "points b g = [] \<Longrightarrow> points b (first_match idea g) = []"
  using points_first_match_subset [of b idea g] by simp

section \<open>Bounds on the score\<close>

lemma description_delta_bounds:
  "0 \<le> sum_list (map delta (first_match idea description_rules))"
  "sum_list (map delta (first_match idea description_rules)) \<le> 20"
  by (simp_all add: first_match_def description_rules_def)

lemma market_delta_bounds:
  "0 \<le> sum_list (map delta (first_match idea market_rules))"
  "sum_list (map delta (first_match idea market_rules)) \<le> 15"
  by (simp_all add: first_match_def market_rules_def)

lemma revenue_delta_bounds:
  "0 \<le> sum_list (map delta (first_match idea revenue_rules))"
  "sum_list (map delta (first_match idea revenue_rules)) \<le> 20"
  by (simp_all add: first_match_def revenue_rules_def)

lemma cost_delta_bounds:
  "0 \<le> sum_list (map delta (first_match idea cost_rules))"
  "sum_list (map delta (first_match idea cost_rules)) \<le> 15"
  by (simp_all add: first_match_def cost_rules_def)

lemma distribution_delta_bounds:
  "0 \<le> sum_list (map delta (first_match idea distribution_rules))"
  "sum_list (map delta (first_match idea distribution_rules)) \<le> 15"
  by (simp_all add: first_match_def distribution_rules_def)

lemma industry_delta_bounds:
  "0 \<le> sum_list (map delta (first_match idea industry_rules))"
  "sum_list (map delta (first_match idea industry_rules)) \<le> 15"
  by (simp_all add: first_match_def industry_rules_def)

lemma triggered_deltas_groups:
  "sum_list (triggered_deltas idea) =
     sum_list (map delta (first_match idea description_rules))
     + sum_list (map delta (first_match idea market_rules))
     + sum_list (map delta (first_match idea revenue_rules))
     + sum_list (map delta (first_match idea cost_rules))
     + sum_list (map delta (first_match idea distribution_rules))
     + sum_list (map delta (first_match idea industry_rules))"
  by (simp add: triggered_deltas_def triggered_def rule_table_def)

lemma raw_score_bounds:
  "0 \<le> sum_list (triggered_deltas idea)" "sum_list (triggered_deltas idea) \<le> 100"
  using description_delta_bounds [of idea] market_delta_bounds [of idea]
    revenue_delta_bounds [of idea] cost_delta_bounds [of idea]
    distribution_delta_bounds [of idea] industry_delta_bounds [of idea]
  unfolding triggered_deltas_groups by linarith+

lemma clamp_score_id: "0 \<le> s \<Longrightarrow> s \<le> 100 \<Longrightarrow> clamp_score s = s"
  by (simp add: clamp_score_def)

lemma clamp_score_range: "0 \<le> clamp_score s \<and> clamp_score s \<le> 100"
  by (simp add: clamp_score_def)

section \<open>The scenarios, evaluated\<close>

lemmas eval_defs =
  run_rules_def init_vars_def analyze_description_def analyze_market_def analyze_revenue_def
  analyze_cost_def analyze_distribution_def analyze_industry_def lower_def lower_char_def

lemma run_rules_acme:
  "run_rules acme =
     \<lparr>score = 100,
      v_strengths = [''Detailed business description'', ''Recurring revenue model'',
        ''Low cost structure'', ''Online distribution capability'', ''Scalable business model''],
      v_weaknesses = [],
      v_opportunities = [''Global market potential'', ''Digital market reach'',
        ''Growing SaaS market''],
      v_threats = [],
      v_risk_factors = [''International market challenges'']\<rparr>"
  by (simp add: eval_defs acme_def)

lemma run_rules_empty_idea:
  "run_rules empty_idea =
     \<lparr>score = 0, v_strengths = [],
      v_weaknesses = [''Business description could be more detailed''],
      v_opportunities = [], v_threats = [], v_risk_factors = []\<rparr>"
  by (simp add: eval_defs empty_idea_def)

lemma run_rules_mixed_idea:
  "run_rules mixed_idea =
     \<lparr>score = 65,
      v_strengths = [''Recurring revenue model'', ''Low cost structure'',
        ''Online distribution capability''],
      v_weaknesses = [''Business description could be more detailed''],
      v_opportunities = [''Global market potential'', ''Digital market reach''],
      v_threats = [],
      v_risk_factors = [''International market challenges'']\<rparr>"
  by (simp add: eval_defs mixed_idea_def)

lemma businessName_acme: "businessName acme = ''Acme''"
  by (simp add: acme_def)

lemma businessName_empty_idea: "businessName empty_idea = []"
  by (simp add: empty_idea_def)

section \<open>Claims about the fallback scorer\<close>

text \<open>
  C2. For every input the scorer returns a result whose \<open>viability_score\<close> is the sum of
  the deltas of the triggered rules and lies between 0 and 100. The sum itself, before
  the clamp of line 150, never exceeds 100, so the clamp changes nothing; the sum 100 is
  reached (by the Acme scenario).
\<close>

theorem viability_score_is_sum_of_deltas:
  "\<exists>r. analyze_business_idea idea = Inr r
     \<and> viability_score r = sum_list (triggered_deltas idea)
     \<and> 0 \<le> viability_score r \<and> viability_score r \<le> 100
     \<and> score (run_rules idea) = sum_list (triggered_deltas idea)
     \<and> score (run_rules idea) \<le> 100
     \<and> clamp_score (score (run_rules idea)) = score (run_rules idea)
     \<and> score (run_rules acme) = 100"
proof -
  have s: "score (run_rules idea) = sum_list (triggered_deltas idea)"
    by (rule score_run_rules)
  have lo: "0 \<le> score (run_rules idea)" and hi: "score (run_rules idea) \<le> 100"
    using raw_score_bounds [of idea] by (simp_all add: s)
  have c: "clamp_score (score (run_rules idea)) = score (run_rules idea)"
    using lo hi by (rule clamp_score_id)
  have a: "score (run_rules acme) = 100"
    by (simp add: run_rules_acme)
  show ?thesis
    using s lo hi c a by (simp add: analyze_Inr)
qed

text \<open>
  C3. For every input each of the output lists \<open>strengths\<close>, \<open>weaknesses\<close>,
  \<open>opportunities\<close>, \<open>threats\<close> and \<open>risk_factors\<close> is the first three candidates of its
  bucket in rule order, so it has at most three entries, and \<open>summary\<close> has exactly three.
\<close>

theorem output_lists_truncated:
  "\<exists>r. analyze_business_idea idea = Inr r
     \<and> strengths (swot_analysis r) = take 3 (candidates Strength idea)
     \<and> weaknesses (swot_analysis r) = take 3 (candidates Weakness idea)
     \<and> opportunities (swot_analysis r) = take 3 (candidates Opportunity idea)
     \<and> threats (swot_analysis r) = take 3 (candidates Threat idea)
     \<and> risk_factors r = take 3 (candidates Risk idea)
     \<and> length (strengths (swot_analysis r)) \<le> 3
     \<and> length (weaknesses (swot_analysis r)) \<le> 3
     \<and> length (opportunities (swot_analysis r)) \<le> 3
     \<and> length (threats (swot_analysis r)) \<le> 3
     \<and> length (risk_factors r) \<le> 3
     \<and> length (summary r) = 3"
  by (simp add: analyze_Inr v_strengths_run_rules v_weaknesses_run_rules
      v_opportunities_run_rules v_threats_run_rules v_risk_factors_run_rules)

text \<open>
  C4. For every input, empty strings included, the scorer returns a result and raises
  nothing; the result satisfies the schema of the data model.
\<close>

theorem analyze_business_idea_never_raises:
  "\<not> isl (analyze_business_idea idea)
     \<and> (\<exists>r. analyze_business_idea idea = Inr r \<and> schema_valid r)"
  by (simp add: analyze_Inr schema_valid_def clamp_score_range)

text \<open>
  C5. The Acme scenario: the score is 100, already before the clamp; the strengths are the
  first three of the five candidates in rule order; the tier is strong.
\<close>

theorem acme_scenario:
  "\<exists>r. analyze_business_idea acme = Inr r
     \<and> viability_score r = 100
     \<and> score (run_rules acme) = 20 + 15 + 20 + 15 + 15 + 15
     \<and> candidates Strength acme =
         [''Detailed business description'', ''Recurring revenue model'',
          ''Low cost structure'', ''Online distribution capability'',
          ''Scalable business model'']
     \<and> strengths (swot_analysis r) =
         [''Detailed business description'', ''Recurring revenue model'',
          ''Low cost structure'']
     \<and> tier (viability_score r) = ''strong''
     \<and> hd (summary r) = ''Acme shows strong market potential''"
proof -
  have c: "candidates Strength acme = v_strengths (run_rules acme)"
    by (simp add: v_strengths_run_rules)
  show ?thesis
    unfolding c
    by (simp add: analyze_Inr run_rules_acme clamp_score_def tier_def businessName_acme)
qed

text \<open>
  C6, as the code has it. With all seven fields empty the score is 0, the tier is weak,
  the summary uses both placeholders, and \<open>strengths\<close>, \<open>opportunities\<close>, \<open>threats\<close> and
  \<open>risk_factors\<close> are empty; \<open>weaknesses\<close> holds the one entry of the short-description
  rule.
\<close>

theorem empty_idea_scenario:
  "analyze_business_idea empty_idea =
     Inr \<lparr>swot_analysis =
            \<lparr>strengths = [],
             weaknesses = [''Business description could be more detailed''],
             opportunities = [], threats = []\<rparr>,
          viability_score = 0,
          risk_factors = [],
          summary = ['' shows weak market potential'',
                     ''Key strength: Need to identify core strengths'',
                     ''Main challenge: Need to assess market risks'']\<rparr>"
  by (simp add: analyze_Inr run_rules_empty_idea clamp_score_def tier_def businessName_empty_idea)

text \<open>
  C6, as stated, fails: on the all-empty input the four SWOT lists are not all empty.
\<close>

theorem empty_idea_swot_not_all_empty:
  "\<not> (strengths (swot_analysis (projr (analyze_business_idea empty_idea))) = []
      \<and> weaknesses (swot_analysis (projr (analyze_business_idea empty_idea))) = []
      \<and> opportunities (swot_analysis (projr (analyze_business_idea empty_idea))) = []
      \<and> threats (swot_analysis (projr (analyze_business_idea empty_idea))) = [])"
  by (simp add: analyze_Inr run_rules_empty_idea)

text \<open>
  C10. The threats of the output are the single e-commerce entry when the industry is
  exactly \<open>E-commerce\<close> and empty otherwise, so there is at most one; and when the industry
  is anything else the third summary string is the placeholder.
\<close>

theorem threats_only_from_ecommerce:
  "\<exists>r. analyze_business_idea idea = Inr r
     \<and> threats (swot_analysis r) =
         (if industry idea = ''E-commerce'' then [''High competition in e-commerce''] else [])
     \<and> length (threats (swot_analysis r)) \<le> 1
     \<and> (industry idea \<noteq> ''E-commerce'' \<longrightarrow>
          summary r ! 2 = ''Main challenge: Need to assess market risks'')"
proof -
  have "points Threat (first_match idea industry_rules) =
      (if industry idea = ''E-commerce'' then [''High competition in e-commerce''] else [])"
    by (simp add: first_match_def industry_rules_def points_def)
  moreover have "points Threat (first_match idea description_rules) = []"
    by (rule points_first_match_Nil) (simp add: points_def description_rules_def)
  moreover have "points Threat (first_match idea market_rules) = []"
    by (rule points_first_match_Nil) (simp add: points_def market_rules_def)
  moreover have "points Threat (first_match idea revenue_rules) = []"
    by (rule points_first_match_Nil) (simp add: points_def revenue_rules_def)
  moreover have "points Threat (first_match idea cost_rules) = []"
    by (rule points_first_match_Nil) (simp add: points_def cost_rules_def)
  moreover have "points Threat (first_match idea distribution_rules) = []"
    by (rule points_first_match_Nil) (simp add: points_def distribution_rules_def)
  ultimately have t: "v_threats (run_rules idea) =
      (if industry idea = ''E-commerce'' then [''High competition in e-commerce''] else [])"
    by (simp add: v_threats_run_rules candidates_groups)
  show ?thesis
    by (simp add: analyze_Inr t)
qed

theorem threats_only_from_ecommerce_witness:
  "industry mixed_idea \<noteq> ''E-commerce''
     \<and> (\<exists>r. analyze_business_idea mixed_idea = Inr r
          \<and> threats (swot_analysis r) = []
          \<and> summary r ! 2 = ''Main challenge: Need to assess market risks'')"
proof -
  have h: "industry mixed_idea \<noteq> ''E-commerce''"
    by (simp add: mixed_idea_def)
  show ?thesis
    using h threats_only_from_ecommerce [of mixed_idea] by auto
qed

section \<open>First match wins\<close>

lemma points_first_match_absent:
  "x \<notin> set (points b g) \<Longrightarrow> x \<notin> set (points b (first_match idea g))"
  using points_first_match_subset [of b idea g] by auto

lemma run_rules_cong:
  assumes "\<And>v. analyze_description i v = analyze_description j v"
    and "\<And>v. analyze_market i v = analyze_market j v"
    and "\<And>v. analyze_revenue i v = analyze_revenue j v"
    and "\<And>v. analyze_cost i v = analyze_cost j v"
    and "\<And>v. analyze_distribution i v = analyze_distribution j v"
    and "\<And>v. analyze_industry i v = analyze_industry j v"
  shows "run_rules i = run_rules j"
  by (simp add: run_rules_def assms)

lemma analyze_cong:
  "run_rules i = run_rules j \<Longrightarrow> businessName i = businessName j \<Longrightarrow>
     analyze_business_idea i = analyze_business_idea j"
  by (simp add: analyze_Inr)

lemma global_only:
  assumes "py_in ''global'' (lower (targetMarket idea))"
  shows "analyze_business_idea idea = analyze_business_idea (idea\<lparr>targetMarket := ''global''\<rparr>)"
proof (rule analyze_cong)
  show "run_rules idea = run_rules (idea\<lparr>targetMarket := ''global''\<rparr>)"
  proof (rule run_rules_cong)
    show "analyze_market idea v = analyze_market (idea\<lparr>targetMarket := ''global''\<rparr>) v" for v
      using assms by (simp add: analyze_market_def lower_def lower_char_def)
  qed (simp_all add: analyze_description_def analyze_revenue_def analyze_cost_def
      analyze_distribution_def analyze_industry_def)
qed simp

lemma subscription_only:
  assumes "py_in ''subscription'' (lower (revenueModel idea))"
  shows "analyze_business_idea idea =
    analyze_business_idea (idea\<lparr>revenueModel := ''subscription''\<rparr>)"
proof (rule analyze_cong)
  show "run_rules idea = run_rules (idea\<lparr>revenueModel := ''subscription''\<rparr>)"
  proof (rule run_rules_cong)
    show "analyze_revenue idea v = analyze_revenue (idea\<lparr>revenueModel := ''subscription''\<rparr>) v"
      for v
      using assms by (simp add: analyze_revenue_def lower_def lower_char_def)
  qed (simp_all add: analyze_description_def analyze_market_def analyze_cost_def
      analyze_distribution_def analyze_industry_def)
qed simp

lemma low_only:
  assumes "py_in ''low'' (lower (costStructure idea))"
  shows "analyze_business_idea idea = analyze_business_idea (idea\<lparr>costStructure := ''low''\<rparr>)"
proof (rule analyze_cong)
  show "run_rules idea = run_rules (idea\<lparr>costStructure := ''low''\<rparr>)"
  proof (rule run_rules_cong)
    show "analyze_cost idea v = analyze_cost (idea\<lparr>costStructure := ''low''\<rparr>) v" for v
      using assms by (simp add: analyze_cost_def lower_def lower_char_def)
  qed (simp_all add: analyze_description_def analyze_market_def analyze_revenue_def
      analyze_distribution_def analyze_industry_def)
qed simp

lemma online_only:
  assumes "py_in ''online'' (lower (distributionChannels idea))"
  shows "analyze_business_idea idea =
    analyze_business_idea (idea\<lparr>distributionChannels := ''online''\<rparr>)"
proof (rule analyze_cong)
  show "run_rules idea = run_rules (idea\<lparr>distributionChannels := ''online''\<rparr>)"
  proof (rule run_rules_cong)
    show "analyze_distribution idea v =
        analyze_distribution (idea\<lparr>distributionChannels := ''online''\<rparr>) v" for v
      using assms by (simp add: analyze_distribution_def lower_def lower_char_def)
  qed (simp_all add: analyze_description_def analyze_market_def analyze_revenue_def
      analyze_cost_def analyze_industry_def)
qed simp

lemma global_effects:
  assumes "py_in ''global'' (lower (targetMarket idea))"
  shows "''Global market potential'' \<in> set (v_opportunities (run_rules idea))"
    and "''International market challenges'' \<in> set (v_risk_factors (run_rules idea))"
    and "''Focused local market approach'' \<notin> set (v_strengths (run_rules idea))"
proof -
  have m: "first_match idea market_rules = [hd market_rules]"
    using assms by (simp add: first_match_def market_rules_def)
  show "''Global market potential'' \<in> set (v_opportunities (run_rules idea))"
    by (simp add: v_opportunities_run_rules candidates_groups m)
      (simp add: points_def market_rules_def)
  show "''International market challenges'' \<in> set (v_risk_factors (run_rules idea))"
    by (simp add: v_risk_factors_run_rules candidates_groups m)
      (simp add: points_def market_rules_def)
  have "''Focused local market approach'' \<notin> set (points Strength (first_match idea market_rules))"
    by (simp add: m) (simp add: points_def market_rules_def)
  moreover have
    "''Focused local market approach'' \<notin> set (points Strength (first_match idea description_rules))"
    by (rule points_first_match_absent) (simp add: points_def description_rules_def)
  moreover have
    "''Focused local market approach'' \<notin> set (points Strength (first_match idea revenue_rules))"
    by (rule points_first_match_absent) (simp add: points_def revenue_rules_def)
  moreover have
    "''Focused local market approach'' \<notin> set (points Strength (first_match idea cost_rules))"
    by (rule points_first_match_absent) (simp add: points_def cost_rules_def)
  moreover have
    "''Focused local market approach'' \<notin> set (points Strength (first_match idea distribution_rules))"
    by (rule points_first_match_absent) (simp add: points_def distribution_rules_def)
  moreover have
    "''Focused local market approach'' \<notin> set (points Strength (first_match idea industry_rules))"
    by (rule points_first_match_absent) (simp add: points_def industry_rules_def)
  ultimately show "''Focused local market approach'' \<notin> set (v_strengths (run_rules idea))"
    by (simp add: v_strengths_run_rules candidates_groups)
qed

lemma subscription_effects:
  assumes "py_in ''subscription'' (lower (revenueModel idea))"
  shows "''Recurring revenue model'' \<in> set (v_strengths (run_rules idea))"
    and "''One-time revenue may limit growth'' \<notin> set (v_weaknesses (run_rules idea))"
proof -
  have m: "first_match idea revenue_rules = [hd revenue_rules]"
    using assms by (simp add: first_match_def revenue_rules_def)
  show "''Recurring revenue model'' \<in> set (v_strengths (run_rules idea))"
    by (simp add: v_strengths_run_rules candidates_groups m)
      (simp add: points_def revenue_rules_def)
  have "''One-time revenue may limit growth'' \<notin> set (points Weakness (first_match idea revenue_rules))"
    by (simp add: m) (simp add: points_def revenue_rules_def)
  moreover have
    "''One-time revenue may limit growth'' \<notin> set (points Weakness (first_match idea description_rules))"
    by (rule points_first_match_absent) (simp add: points_def description_rules_def)
  moreover have
    "''One-time revenue may limit growth'' \<notin> set (points Weakness (first_match idea market_rules))"
    by (rule points_first_match_absent) (simp add: points_def market_rules_def)
  moreover have
    "''One-time revenue may limit growth'' \<notin> set (points Weakness (first_match idea cost_rules))"
    by (rule points_first_match_absent) (simp add: points_def cost_rules_def)
  moreover have
    "''One-time revenue may limit growth'' \<notin> set (points Weakness (first_match idea distribution_rules))"
    by (rule points_first_match_absent) (simp add: points_def distribution_rules_def)
  moreover have
    "''One-time revenue may limit growth'' \<notin> set (points Weakness (first_match idea industry_rules))"
    by (rule points_first_match_absent) (simp add: points_def industry_rules_def)
  ultimately show "''One-time revenue may limit growth'' \<notin> set (v_weaknesses (run_rules idea))"
    by (simp add: v_weaknesses_run_rules candidates_groups)
qed

lemma low_effects:
  assumes "py_in ''low'' (lower (costStructure idea))"
  shows "''Low cost structure'' \<in> set (v_strengths (run_rules idea))"
    and "''High operational costs'' \<notin> set (v_risk_factors (run_rules idea))"
proof -
  have m: "first_match idea cost_rules = [hd cost_rules]"
    using assms by (simp add: first_match_def cost_rules_def)
  show "''Low cost structure'' \<in> set (v_strengths (run_rules idea))"
    by (simp add: v_strengths_run_rules candidates_groups m)
      (simp add: points_def cost_rules_def)
  have "''High operational costs'' \<notin> set (points Risk (first_match idea cost_rules))"
    by (simp add: m) (simp add: points_def cost_rules_def)
  moreover have
    "''High operational costs'' \<notin> set (points Risk (first_match idea description_rules))"
    by (rule points_first_match_absent) (simp add: points_def description_rules_def)
  moreover have
    "''High operational costs'' \<notin> set (points Risk (first_match idea market_rules))"
    by (rule points_first_match_absent) (simp add: points_def market_rules_def)
  moreover have
    "''High operational costs'' \<notin> set (points Risk (first_match idea revenue_rules))"
    by (rule points_first_match_absent) (simp add: points_def revenue_rules_def)
  moreover have
    "''High operational costs'' \<notin> set (points Risk (first_match idea distribution_rules))"
    by (rule points_first_match_absent) (simp add: points_def distribution_rules_def)
  moreover have
    "''High operational costs'' \<notin> set (points Risk (first_match idea industry_rules))"
    by (rule points_first_match_absent) (simp add: points_def industry_rules_def)
  ultimately show "''High operational costs'' \<notin> set (v_risk_factors (run_rules idea))"
    by (simp add: v_risk_factors_run_rules candidates_groups)
qed

lemma online_effects:
  assumes "py_in ''online'' (lower (distributionChannels idea))"
  shows "''Online distribution capability'' \<in> set (v_strengths (run_rules idea))"
    and "''Digital market reach'' \<in> set (v_opportunities (run_rules idea))"
    and "''Physical distribution costs'' \<notin> set (v_risk_factors (run_rules idea))"
proof -
  have m: "first_match idea distribution_rules = [hd distribution_rules]"
    using assms by (simp add: first_match_def distribution_rules_def)
  show "''Online distribution capability'' \<in> set (v_strengths (run_rules idea))"
    by (simp add: v_strengths_run_rules candidates_groups m)
      (simp add: points_def distribution_rules_def)
  show "''Digital market reach'' \<in> set (v_opportunities (run_rules idea))"
    by (simp add: v_opportunities_run_rules candidates_groups m)
      (simp add: points_def distribution_rules_def)
  have "''Physical distribution costs'' \<notin> set (points Risk (first_match idea distribution_rules))"
    by (simp add: m) (simp add: points_def distribution_rules_def)
  moreover have
    "''Physical distribution costs'' \<notin> set (points Risk (first_match idea description_rules))"
    by (rule points_first_match_absent) (simp add: points_def description_rules_def)
  moreover have
    "''Physical distribution costs'' \<notin> set (points Risk (first_match idea market_rules))"
    by (rule points_first_match_absent) (simp add: points_def market_rules_def)
  moreover have
    "''Physical distribution costs'' \<notin> set (points Risk (first_match idea revenue_rules))"
    by (rule points_first_match_absent) (simp add: points_def revenue_rules_def)
  moreover have
    "''Physical distribution costs'' \<notin> set (points Risk (first_match idea cost_rules))"
    by (rule points_first_match_absent) (simp add: points_def cost_rules_def)
  moreover have
    "''Physical distribution costs'' \<notin> set (points Risk (first_match idea industry_rules))"
    by (rule points_first_match_absent) (simp add: points_def industry_rules_def)
  ultimately show "''Physical distribution costs'' \<notin> set (v_risk_factors (run_rules idea))"
    by (simp add: v_risk_factors_run_rules candidates_groups)
qed

lemma mixed_idea_keywords:
  "py_in ''global'' (lower (targetMarket mixed_idea))"
  "py_in ''local'' (lower (targetMarket mixed_idea))"
  "py_in ''subscription'' (lower (revenueModel mixed_idea))"
  "py_in ''one-time'' (lower (revenueModel mixed_idea))"
  "py_in ''low'' (lower (costStructure mixed_idea))"
  "py_in ''high'' (lower (costStructure mixed_idea))"
  "py_in ''online'' (lower (distributionChannels mixed_idea))"
  "py_in ''physical'' (lower (distributionChannels mixed_idea))"
  by (simp_all add: mixed_idea_def lower_def lower_char_def)

text \<open>
  C7. When the lower-cased target market contains \<open>global\<close>, whether or not it also
  contains \<open>local\<close>, the market rule does exactly what its first branch says (15 points,
  one opportunity, one risk), the two points are among the accumulated ones, the point of
  the \<open>local\<close> branch is not, and the whole result is the one of an input whose target
  market is just \<open>global\<close>. The same holds for \<open>subscription\<close> before \<open>one-time\<close>, \<open>low\<close>
  before \<open>high\<close> and \<open>online\<close> before \<open>physical\<close>.
\<close>

theorem first_match_wins:
  "(py_in ''global'' (lower (targetMarket idea)) \<longrightarrow>
      (\<forall>v. analyze_market idea v =
         v\<lparr>score := score v + 15,
           v_opportunities := v_opportunities v @ [''Global market potential''],
           v_risk_factors := v_risk_factors v @ [''International market challenges'']\<rparr>)
      \<and> ''Global market potential'' \<in> set (v_opportunities (run_rules idea))
      \<and> ''International market challenges'' \<in> set (v_risk_factors (run_rules idea))
      \<and> ''Focused local market approach'' \<notin> set (v_strengths (run_rules idea))
      \<and> analyze_business_idea idea = analyze_business_idea (idea\<lparr>targetMarket := ''global''\<rparr>))
   \<and> (py_in ''subscription'' (lower (revenueModel idea)) \<longrightarrow>
      (\<forall>v. analyze_revenue idea v =
         v\<lparr>score := score v + 20,
           v_strengths := v_strengths v @ [''Recurring revenue model'']\<rparr>)
      \<and> ''Recurring revenue model'' \<in> set (v_strengths (run_rules idea))
      \<and> ''One-time revenue may limit growth'' \<notin> set (v_weaknesses (run_rules idea))
      \<and> analyze_business_idea idea =
          analyze_business_idea (idea\<lparr>revenueModel := ''subscription''\<rparr>))
   \<and> (py_in ''low'' (lower (costStructure idea)) \<longrightarrow>
      (\<forall>v. analyze_cost idea v =
         v\<lparr>score := score v + 15,
           v_strengths := v_strengths v @ [''Low cost structure'']\<rparr>)
      \<and> ''Low cost structure'' \<in> set (v_strengths (run_rules idea))
      \<and> ''High operational costs'' \<notin> set (v_risk_factors (run_rules idea))
      \<and> analyze_business_idea idea = analyze_business_idea (idea\<lparr>costStructure := ''low''\<rparr>))
   \<and> (py_in ''online'' (lower (distributionChannels idea)) \<longrightarrow>
      (\<forall>v. analyze_distribution idea v =
         v\<lparr>score := score v + 15,
           v_strengths := v_strengths v @ [''Online distribution capability''],
           v_opportunities := v_opportunities v @ [''Digital market reach'']\<rparr>)
      \<and> ''Online distribution capability'' \<in> set (v_strengths (run_rules idea))
      \<and> ''Digital market reach'' \<in> set (v_opportunities (run_rules idea))
      \<and> ''Physical distribution costs'' \<notin> set (v_risk_factors (run_rules idea))
      \<and> analyze_business_idea idea =
          analyze_business_idea (idea\<lparr>distributionChannels := ''online''\<rparr>))"
proof (intro conjI impI allI)
  fix v
  assume g: "py_in ''global'' (lower (targetMarket idea))"
  show "analyze_market idea v =
         v\<lparr>score := score v + 15,
           v_opportunities := v_opportunities v @ [''Global market potential''],
           v_risk_factors := v_risk_factors v @ [''International market challenges'']\<rparr>"
    using g by (simp add: analyze_market_def)
next
  fix v
  assume g: "py_in ''subscription'' (lower (revenueModel idea))"
  show "analyze_revenue idea v =
         v\<lparr>score := score v + 20,
           v_strengths := v_strengths v @ [''Recurring revenue model'']\<rparr>"
    using g by (simp add: analyze_revenue_def)
next
  fix v
  assume g: "py_in ''low'' (lower (costStructure idea))"
  show "analyze_cost idea v =
         v\<lparr>score := score v + 15,
           v_strengths := v_strengths v @ [''Low cost structure'']\<rparr>"
    using g by (simp add: analyze_cost_def)
next
  fix v
  assume g: "py_in ''online'' (lower (distributionChannels idea))"
  show "analyze_distribution idea v =
         v\<lparr>score := score v + 15,
           v_strengths := v_strengths v @ [''Online distribution capability''],
           v_opportunities := v_opportunities v @ [''Digital market reach'']\<rparr>"
    using g by (simp add: analyze_distribution_def)
qed (simp_all add: global_effects global_only subscription_effects subscription_only
    low_effects low_only online_effects online_only)

theorem first_match_wins_witness:
  "py_in ''global'' (lower (targetMarket mixed_idea))
   \<and> py_in ''local'' (lower (targetMarket mixed_idea))
   \<and> py_in ''subscription'' (lower (revenueModel mixed_idea))
   \<and> py_in ''one-time'' (lower (revenueModel mixed_idea))
   \<and> py_in ''low'' (lower (costStructure mixed_idea))
   \<and> py_in ''high'' (lower (costStructure mixed_idea))
   \<and> py_in ''online'' (lower (distributionChannels mixed_idea))
   \<and> py_in ''physical'' (lower (distributionChannels mixed_idea))
   \<and> ''Focused local market approach'' \<notin> set (v_strengths (run_rules mixed_idea))
   \<and> ''One-time revenue may limit growth'' \<notin> set (v_weaknesses (run_rules mixed_idea))
   \<and> ''High operational costs'' \<notin> set (v_risk_factors (run_rules mixed_idea))
   \<and> ''Physical distribution costs'' \<notin> set (v_risk_factors (run_rules mixed_idea))
   \<and> analyze_business_idea mixed_idea =
       analyze_business_idea (mixed_idea\<lparr>targetMarket := ''global''\<rparr>)
   \<and> analyze_business_idea mixed_idea =
       analyze_business_idea (mixed_idea\<lparr>revenueModel := ''subscription''\<rparr>)
   \<and> analyze_business_idea mixed_idea =
       analyze_business_idea (mixed_idea\<lparr>costStructure := ''low''\<rparr>)
   \<and> analyze_business_idea mixed_idea =
       analyze_business_idea (mixed_idea\<lparr>distributionChannels := ''online''\<rparr>)"
  using mixed_idea_keywords first_match_wins [of mixed_idea] by blast

section \<open>Finding the braces\<close>

lemma py_find_lower: "- 1 \<le> py_find c s"
  by (induction s) (auto simp: Let_def)

lemma py_find_found: "0 \<le> py_find c s \<longleftrightarrow> c \<in> set s"
  by (induction s) (auto simp: Let_def)

lemma py_rfind_lower: "- 1 \<le> py_rfind c s"
  by (induction s) (auto simp: Let_def)

lemma py_rfind_found: "0 \<le> py_rfind c s \<longleftrightarrow> c \<in> set s"
  by (induction s) (auto simp: Let_def)

lemma py_rfind_absent: "c \<notin> set s \<Longrightarrow> py_rfind c s = - 1"
  using py_rfind_found [of c s] py_rfind_lower [of c s] by linarith

lemma py_rfind_upper: "py_rfind c s < int (length s)"
  by (induction s) (auto simp: Let_def)

lemma find_before_rfind:
  "a \<noteq> b \<Longrightarrow>
     (0 \<le> py_find a s \<and> py_find a s < py_rfind b s + 1)
       \<longleftrightarrow> b \<in> set (dropWhile (\<lambda>c. c \<noteq> a) s)"
proof (induction s)
  case Nil
  then show ?case by simp
next
  case (Cons x xs)
  show ?case
  proof (cases "x = a")
    case True
    have "0 < py_rfind b (a # xs) + 1 \<longleftrightarrow> b \<in> set (a # xs)"
      using py_rfind_found [of b "a # xs"] by linarith
    then show ?thesis using True by simp
  next
    case False
    show ?thesis
    proof (cases "b \<in> set xs")
      case True
      then have "0 \<le> py_rfind b xs" by (simp add: py_rfind_found)
      then show ?thesis
        using False Cons.IH [OF Cons.prems] py_find_lower [of a xs]
        by (auto simp: Let_def)
    next
      case False
      then have r: "py_rfind b xs = - 1" by (rule py_rfind_absent)
      have "b \<notin> set (dropWhile (\<lambda>c. c \<noteq> a) xs)"
        using False set_dropWhileD by fastforce
      then show ?thesis
        using \<open>x \<noteq> a\<close> r py_find_lower [of a xs] by (auto simp: Let_def)
    qed
  qed
qed

lemma brace_guard:
  "(py_find CHR ''{'' str \<ge> 0 \<and> py_rfind CHR ''}'' str + 1 > py_find CHR ''{'' str)
     \<longleftrightarrow> has_brace_pair str"
  using find_before_rfind [of "CHR ''{''" "CHR ''}''" str] by (simp add: has_brace_pair_def)

lemma drop_py_find:
  "0 \<le> py_find a s \<Longrightarrow> drop (nat (py_find a s)) s = dropWhile (\<lambda>c. c \<noteq> a) s"
proof (induction s)
  case Nil
  then show ?case by simp
next
  case (Cons x xs)
  show ?case
  proof (cases "x = a")
    case True
    then show ?thesis by simp
  next
    case False
    then have f: "0 \<le> py_find a xs"
      using Cons.prems by (auto simp: Let_def split: if_splits)
    then have "nat (py_find a xs + 1) = Suc (nat (py_find a xs))" by simp
    then show ?thesis using False f Cons.IH by (simp add: Let_def)
  qed
qed

lemma take_py_rfind:
  "take (nat (py_rfind b s + 1)) s = rev (dropWhile (\<lambda>c. c \<noteq> b) (rev s))"
proof (induction s)
  case Nil
  then show ?case by simp
next
  case (Cons x xs)
  show ?case
  proof (cases "b \<in> set xs")
    case True
    then have r: "0 \<le> py_rfind b xs" by (simp add: py_rfind_found)
    then have n: "nat (py_rfind b xs + 1 + 1) = Suc (nat (py_rfind b xs + 1))" by simp
    have "dropWhile (\<lambda>c. c \<noteq> b) (rev xs @ [x]) = dropWhile (\<lambda>c. c \<noteq> b) (rev xs) @ [x]"
      using True by (simp add: dropWhile_append1)
    then show ?thesis using r n Cons.IH by (simp add: Let_def)
  next
    case False
    then have r: "py_rfind b xs = - 1" by (rule py_rfind_absent)
    have "dropWhile (\<lambda>c. c \<noteq> b) (rev xs @ [x]) = dropWhile (\<lambda>c. c \<noteq> b) [x]"
      by (rule dropWhile_append2) (use False in auto)
    then show ?thesis using r False by (auto simp: Let_def)
  qed
qed

lemma py_rfind_drop:
  "b \<in> set (drop n s) \<Longrightarrow> py_rfind b (drop n s) = py_rfind b s - int n"
proof (induction s arbitrary: n)
  case Nil
  then show ?case by simp
next
  case (Cons x xs)
  show ?case
  proof (cases n)
    case 0
    then show ?thesis by simp
  next
    case (Suc m)
    then have m: "b \<in> set (drop m xs)" using Cons.prems by simp
    then have "b \<in> set xs" by (meson in_set_dropD)
    then have "0 \<le> py_rfind b xs" by (simp add: py_rfind_found)
    then show ?thesis using Suc Cons.IH [OF m] by (simp add: Let_def)
  qed
qed

text \<open>
  The guard of line 73 holds exactly when the text has an opening brace with a closing
  brace after it, and the slice of line 74 is then the text from the first opening brace
  to the last closing brace.
\<close>

lemma slice_between_braces:
  assumes "has_brace_pair str"
  shows "slice str (py_find CHR ''{'' str) (py_rfind CHR ''}'' str + 1) = between_braces str"
proof -
  let ?a = "CHR ''{''" and ?b = "CHR ''}''"
  let ?n = "nat (py_find ?a str)"
  have g: "0 \<le> py_find ?a str" "py_find ?a str < py_rfind ?b str + 1"
    using assms brace_guard [of str] by simp_all
  have d: "drop ?n str = dropWhile (\<lambda>c. c \<noteq> ?a) str"
    using g(1) by (rule drop_py_find)
  have "?b \<in> set (drop ?n str)"
    using assms by (simp add: d has_brace_pair_def)
  then have r: "py_rfind ?b (drop ?n str) = py_rfind ?b str - int ?n"
    by (rule py_rfind_drop)
  have "between_braces str = take (nat (py_rfind ?b (drop ?n str) + 1)) (drop ?n str)"
    by (simp add: between_braces_def d [symmetric] take_py_rfind)
  also have "\<dots> = take (nat (py_rfind ?b str + 1) - ?n) (drop ?n str)"
  proof -
    have "nat (py_rfind ?b str - int ?n + 1) = nat (py_rfind ?b str + 1) - ?n"
      using g by arith
    then show ?thesis by (simp only: r)
  qed
  also have "\<dots> = drop ?n (take (nat (py_rfind ?b str + 1)) str)"
    by (simp add: drop_take)
  finally show ?thesis by (simp add: slice_def)
qed

section \<open>The attempt and its failures\<close>

lemma fallback_Inr: "fallback idea = Inr (as_dict (projr (analyze_business_idea idea)))"
  by (simp add: fallback_def analyze_Inr)

lemma get_ai_analysis_cases:
  "get_ai_analysis e idea =
     (case ai_attempt e idea of Inl x \<Rightarrow> fallback idea | Inr j \<Rightarrow> Inr j)"
  by (simp add: get_ai_analysis_def split: sum.splits)

lemma attempt_failed: "isl (ai_attempt e idea) \<Longrightarrow> get_ai_analysis e idea = fallback idea"
  by (cases "ai_attempt e idea") (simp_all add: get_ai_analysis_cases)

lemma attempt_raised: "post e (prompt idea) = Raised x \<Longrightarrow> ai_attempt e idea = Inl x"
  by (simp add: ai_attempt_def fetch_generated_text_def)

lemma attempt_http_error:
  "post e (prompt idea) = Returned r \<Longrightarrow> 400 \<le> status_code r \<Longrightarrow> status_code r < 600 \<Longrightarrow>
     ai_attempt e idea = Inl HTTPError"
  by (simp add: ai_attempt_def fetch_generated_text_def raise_for_status_def)

lemma attempt_no_braces:
  "fetch_generated_text e idea = Inr (JString str) \<Longrightarrow> \<not> has_brace_pair str \<Longrightarrow>
     ai_attempt e idea = Inl ValueError"
  using brace_guard [of str] by (auto simp: ai_attempt_def extract_json_def Let_def)

lemma attempt_invalid_json:
  assumes "fetch_generated_text e idea = Inr (JString str)"
    and "loads e (between_braces str) = None"
  shows "isl (ai_attempt e idea)"
proof (cases "has_brace_pair str")
  case True
  then have "ai_attempt e idea = Inl JSONDecodeError"
    using assms brace_guard [of str] slice_between_braces [of str]
    by (simp add: ai_attempt_def extract_json_def Let_def)
  then show ?thesis by simp
next
  case False
  then show ?thesis using assms(1) by (simp add: attempt_no_braces)
qed

lemma attempt_succeeds:
  assumes "fetch_generated_text e idea = Inr (JString str)"
    and "has_brace_pair str" and "loads e (between_braces str) = Some j"
  shows "get_ai_analysis e idea = Inr j"
  using assms brace_guard [of str] slice_between_braces [of str]
  by (simp add: get_ai_analysis_cases ai_attempt_def extract_json_def Let_def)

lemma evaluate_idea_elapsed: "elapsed (evaluate_idea e idea) = duration e"
  by (simp add: evaluate_idea_def Let_def)

lemma evaluate_idea_of_fallback:
  assumes "get_ai_analysis e idea = fallback idea"
  shows "reply (evaluate_idea e idea) =
     Inr \<lparr>status = ''success'', message = ''Business idea evaluated successfully'',
          data_businessName = businessName idea, data_industry = industry idea,
          data_analysis = as_dict (projr (analyze_business_idea idea))\<rparr>"
  using assms by (simp add: evaluate_idea_def future_result_def Let_def fallback_Inr)

section \<open>Claims about the enrichment attempt and the handler\<close>

text \<open>
  C1, as the code has it. Whenever the enrichment attempt fails, because the outbound call
  raises (a timeout or any other error), because the status is an error status, 400 to
  599, the ones \<open>raise_for_status\<close> rejects, because the generated text has no opening
  brace with a closing brace after it, because the text between the braces does not
  parse, or for any other reason that makes the body of the \<open>try\<close> raise,
  \<open>get_ai_analysis\<close> returns what the fallback scorer returns on the same input, and that
  dictionary is the analysis in the handler's reply.
\<close>

theorem enrichment_failure_delegates:
  assumes "(\<exists>x. post e (prompt idea) = Raised x)
     \<or> (\<exists>r. post e (prompt idea) = Returned r \<and> 400 \<le> status_code r \<and> status_code r < 600)
     \<or> (\<exists>str. fetch_generated_text e idea = Inr (JString str) \<and> \<not> has_brace_pair str)
     \<or> (\<exists>str. fetch_generated_text e idea = Inr (JString str)
           \<and> loads e (between_braces str) = None)
     \<or> isl (ai_attempt e idea)"
  shows "get_ai_analysis e idea = fallback idea
     \<and> (\<exists>r. analyze_business_idea idea = Inr r
          \<and> get_ai_analysis e idea = Inr (as_dict r)
          \<and> reply (evaluate_idea e idea) =
              Inr \<lparr>status = ''success'', message = ''Business idea evaluated successfully'',
                   data_businessName = businessName idea, data_industry = industry idea,
                   data_analysis = as_dict r\<rparr>)"
proof -
  have "isl (ai_attempt e idea)"
    using assms attempt_raised [of e idea] attempt_http_error [of e idea]
      attempt_no_braces [of e idea] attempt_invalid_json [of e idea]
    by (elim disjE exE conjE) simp_all
  then have g: "get_ai_analysis e idea = fallback idea"
    by (rule attempt_failed)
  have r: "analyze_business_idea idea = Inr (projr (analyze_business_idea idea))"
    by (simp add: analyze_Inr)
  show ?thesis
    using g r evaluate_idea_of_fallback [OF g] fallback_Inr [of idea] by auto
qed

theorem enrichment_failure_delegates_witness:
  "post timeout_env (prompt acme) = Raised Timeout
     \<and> get_ai_analysis timeout_env acme = fallback acme
     \<and> (\<exists>r. analyze_business_idea acme = Inr r
          \<and> get_ai_analysis timeout_env acme = Inr (as_dict r)
          \<and> reply (evaluate_idea timeout_env acme) =
              Inr \<lparr>status = ''success'', message = ''Business idea evaluated successfully'',
                   data_businessName = businessName acme, data_industry = industry acme,
                   data_analysis = as_dict r\<rparr>)
     \<and> post unavailable_env (prompt acme) =
           Returned \<lparr>status_code = 503, body = ''Service Unavailable''\<rparr>
     \<and> get_ai_analysis unavailable_env acme = fallback acme
     \<and> fetch_generated_text plain_env acme = Inr (JString ''no json here'')
     \<and> \<not> has_brace_pair ''no json here''
     \<and> get_ai_analysis plain_env acme = fallback acme"
proof -
  have h: "post timeout_env (prompt acme) = Raised Timeout"
    by (simp add: timeout_env_def)
  then have "\<exists>x. post timeout_env (prompt acme) = Raised x"
    by blast
  then have t: "get_ai_analysis timeout_env acme = fallback acme
     \<and> (\<exists>r. analyze_business_idea acme = Inr r
          \<and> get_ai_analysis timeout_env acme = Inr (as_dict r)
          \<and> reply (evaluate_idea timeout_env acme) =
              Inr \<lparr>status = ''success'', message = ''Business idea evaluated successfully'',
                   data_businessName = businessName acme, data_industry = industry acme,
                   data_analysis = as_dict r\<rparr>)"
    using enrichment_failure_delegates [of timeout_env acme] by blast
  have u: "post unavailable_env (prompt acme) =
      Returned \<lparr>status_code = 503, body = ''Service Unavailable''\<rparr>"
    by (simp add: unavailable_env_def)
  then have "\<exists>r. post unavailable_env (prompt acme) = Returned r
      \<and> 400 \<le> status_code r \<and> status_code r < 600"
    by simp
  then have u': "get_ai_analysis unavailable_env acme = fallback acme"
    using enrichment_failure_delegates [of unavailable_env acme] by blast
  have p: "fetch_generated_text plain_env acme = Inr (JString ''no json here'')"
    by (simp add: fetch_generated_text_def plain_env_def raise_for_status_def subscript0_def
        index0_def subscript_key_def)
  have n: "\<not> has_brace_pair ''no json here''"
    by (simp add: has_brace_pair_def)
  have "\<exists>str. fetch_generated_text plain_env acme = Inr (JString str) \<and> \<not> has_brace_pair str"
    using p n by blast
  then have p': "get_ai_analysis plain_env acme = fallback acme"
    using enrichment_failure_delegates [of plain_env acme] by blast
  show ?thesis
    using h t u u' p n p' by blast
qed

text \<open>
  C1, as stated, fails for a status that is not a success but not an error status either:
  a 300 answer passes \<open>raise_for_status\<close>, its body is parsed, and the parsed value, not
  the fallback scorer's dictionary, is returned and sent in the reply.
\<close>

theorem redirect_status_is_not_delegated:
  "post redirect_env (prompt acme) = Returned \<lparr>status_code = 300, body = redirect_body\<rparr>
     \<and> raise_for_status \<lparr>status_code = 300, body = redirect_body\<rparr> = Inr ()
     \<and> get_ai_analysis redirect_env acme = Inr (JObject [])
     \<and> get_ai_analysis redirect_env acme \<noteq> fallback acme
     \<and> data_analysis (projr (reply (evaluate_idea redirect_env acme))) = JObject []
     \<and> data_analysis (projr (reply (evaluate_idea redirect_env acme)))
         \<noteq> as_dict (projr (analyze_business_idea acme))"
proof -
  have p: "post redirect_env (prompt acme) =
      Returned \<lparr>status_code = 300, body = redirect_body\<rparr>"
    by (simp add: redirect_env_def)
  have s: "raise_for_status \<lparr>status_code = 300, body = redirect_body\<rparr> = Inr ()"
    by (simp add: raise_for_status_def)
  have b: "redirect_body \<noteq> ''{}''"
    by (simp add: redirect_body_def quoted_def)
  have "fetch_generated_text redirect_env acme = Inr (JString ''{}'')"
    by (simp add: fetch_generated_text_def redirect_env_def raise_for_status_def subscript0_def
        index0_def subscript_key_def)
  moreover have "has_brace_pair ''{}''"
    by (simp add: has_brace_pair_def)
  moreover have "loads redirect_env (between_braces ''{}'') = Some (JObject [])"
    using b by (simp add: between_braces_def redirect_env_def)
  ultimately have g: "get_ai_analysis redirect_env acme = Inr (JObject [])"
    by (rule attempt_succeeds)
  have n: "as_dict (projr (analyze_business_idea acme)) \<noteq> JObject []"
    by (simp add: as_dict_def)
  have f: "get_ai_analysis redirect_env acme \<noteq> fallback acme"
    using n by (simp add: g fallback_Inr)
  have d: "duration redirect_env \<le> 15"
    by (simp add: redirect_env_def)
  have a: "data_analysis (projr (reply (evaluate_idea redirect_env acme))) = JObject []"
    using d by (simp add: evaluate_idea_def future_result_def Let_def g)
  show ?thesis
    using p s g f a n by simp
qed

text \<open>
  C9. \<open>get_ai_analysis\<close> raises nothing: it returns the parsed value when the body of the
  \<open>try\<close> succeeds and the fallback scorer's dictionary when it raises, and the fallback
  scorer raises nothing either. So the wait of line 186 ends in an exception exactly when
  the attempt takes longer than the 15 units, and that exception is the time-out.
\<close>

theorem get_ai_analysis_always_returns:
  "\<not> isl (get_ai_analysis e idea)
     \<and> (\<exists>j. get_ai_analysis e idea = Inr j)
     \<and> get_ai_analysis e idea =
         (case ai_attempt e idea of Inl x \<Rightarrow> fallback idea | Inr j \<Rightarrow> Inr j)
     \<and> \<not> isl (fallback idea)
     \<and> (isl (future_result e idea) \<longleftrightarrow> 15 < duration e)
     \<and> (isl (future_result e idea) \<longleftrightarrow> future_result e idea = Inl FutureTimeoutError)"
proof -
  have f: "\<not> isl (fallback idea)"
    by (simp add: fallback_Inr)
  have g: "\<not> isl (get_ai_analysis e idea)"
    using f by (cases "ai_attempt e idea") (simp_all add: get_ai_analysis_cases)
  then have x: "\<exists>j. get_ai_analysis e idea = Inr j"
    by (cases "get_ai_analysis e idea") simp_all
  have t: "isl (future_result e idea) \<longleftrightarrow> 15 < duration e"
    using g by (auto simp: future_result_def)
  have u: "isl (future_result e idea) \<longleftrightarrow> future_result e idea = Inl FutureTimeoutError"
    using g by (auto simp: future_result_def)
  show ?thesis
    using f g x t u get_ai_analysis_cases [of e idea] by blast
qed

text \<open>
  C8, as the code has it. The handler answers when the attempt has finished, whatever the
  15 units of line 186: with an attempt that takes 20 units and succeeds, the wait of
  line 186 times out, the parsed value is dropped and the fallback scorer's dictionary is
  the analysis of the reply, but the reply leaves after 20 units, not after 15.
\<close>

theorem slow_attempt_is_waited_for:
  "elapsed (evaluate_idea e idea) = duration e
     \<and> duration slow_env = 20
     \<and> get_ai_analysis slow_env acme = Inr (JObject [])
     \<and> future_result slow_env acme = Inl FutureTimeoutError
     \<and> elapsed (evaluate_idea slow_env acme) = 20
     \<and> data_analysis (projr (reply (evaluate_idea slow_env acme))) =
         as_dict (projr (analyze_business_idea acme))"
proof -
  have d: "duration slow_env = 20"
    by (simp add: slow_env_def)
  have b: "slow_body \<noteq> ''{}''"
    by (simp add: slow_body_def quoted_def)
  have "fetch_generated_text slow_env acme = Inr (JString ''{}'')"
    by (simp add: fetch_generated_text_def slow_env_def raise_for_status_def subscript0_def
        index0_def subscript_key_def)
  moreover have "has_brace_pair ''{}''"
    by (simp add: has_brace_pair_def)
  moreover have "loads slow_env (between_braces ''{}'') = Some (JObject [])"
    using b by (simp add: between_braces_def slow_env_def)
  ultimately have g: "get_ai_analysis slow_env acme = Inr (JObject [])"
    by (rule attempt_succeeds)
  have f: "future_result slow_env acme = Inl FutureTimeoutError"
    by (simp add: future_result_def d)
  have a: "data_analysis (projr (reply (evaluate_idea slow_env acme))) =
      as_dict (projr (analyze_business_idea acme))"
    by (simp add: evaluate_idea_def Let_def f fallback_Inr)
  show ?thesis
    using d g f a by (simp add: evaluate_idea_elapsed)
qed

end
